theory Spec2Isabelle
  imports Complex_Main
begin

section \<open>Data model\<close>

subsection \<open>Errors and the log\<close>

text \<open>
  The exceptions the transformers of \<^verbatim>\<open>update.py\<close> can raise. \<open>YAMLError\<close> is what the
  document decoder raises on text it cannot parse; \<open>Unsupported\<close> marks the one input
  the embedding leaves out (a \<^verbatim>\<open>module\<close> field that is truthy but no string).
\<close>

datatype error = AttributeError | IndexError | KeyError | TypeError | YAMLError | Unsupported

datatype level = INFO | WARNING

type_synonym logline = "level \<times> string"

subsection \<open>The syntax tree\<close>

text \<open>
  Only what the program inspects is kept of Python's \<^verbatim>\<open>ast\<close>: expressions that occur as
  assignment targets or values, and statements by whether they carry a \<^verbatim>\<open>targets\<close>
  attribute. \<^verbatim>\<open>ast.Assign\<close> and \<^verbatim>\<open>ast.Delete\<close> are the statement classes with that
  attribute; every other statement is \<open>OtherStmt\<close>.
\<close>

datatype pyconst = PStr string | PInt int | PNone

datatype expr =
    Name string
  | Constant pyconst
  | Dict "expr list" "expr list"
  | Tuple "expr list"
  | Attribute expr string
  | Subscript expr expr
  | OtherExpr

datatype stmt =
    Assign "expr list" expr
  | Delete "expr list"
  | OtherStmt

text \<open>The interpreter state a transformer works on: \<^verbatim>\<open>ast_obj.body\<close> and the log output.\<close>

record pystate =
  tree :: "stmt list"
  log :: "logline list"

definition warning :: "string \<Rightarrow> pystate \<Rightarrow> pystate" where
  "warning msg st = st\<lparr>log := log st @ [(WARNING, msg)]\<rparr>"

definition info :: "string \<Rightarrow> pystate \<Rightarrow> pystate" where
  "info msg st = st\<lparr>log := log st @ [(INFO, msg)]\<rparr>"

definition ebind :: "error + 'a \<Rightarrow> ('a \<Rightarrow> error + 'b) \<Rightarrow> error + 'b" where
  "ebind r f = (case r of Inl e \<Rightarrow> Inl e | Inr v \<Rightarrow> f v)"

section \<open>The assignment locator\<close>

text \<open>
  \<^verbatim>\<open>hasattr(b, "targets") and b.targets[0].id == name\<close>: the second conjunct is evaluated
  only for a statement with \<^verbatim>\<open>targets\<close>; there \<^verbatim>\<open>.id\<close> exists on \<^verbatim>\<open>ast.Name\<close> alone.
\<close>

fun targets_of :: "stmt \<Rightarrow> expr list option" where
  "targets_of (Assign ts v) = Some ts"
| "targets_of (Delete ts) = Some ts"
| "targets_of OtherStmt = None"

fun first_id :: "expr list \<Rightarrow> error + string" where
  "first_id [] = Inl IndexError"
| "first_id (Name i # ts) = Inr i"
| "first_id (t # ts) = Inl AttributeError"

definition selects :: "string \<Rightarrow> stmt \<Rightarrow> error + bool" where
  "selects name b =
     (case targets_of b of
        None \<Rightarrow> Inr False
      | Some ts \<Rightarrow> (case first_id ts of Inl e \<Rightarrow> Inl e | Inr i \<Rightarrow> Inr (i = name)))"

text \<open>
  The comprehension walks \<^verbatim>\<open>ast_file.body\<close> in order. The nodes it returns are
  references into the tree; they are modelled by their positions in the body.
\<close>

fun find_from :: "string \<Rightarrow> nat \<Rightarrow> stmt list \<Rightarrow> error + nat list" where
  "find_from name i [] = Inr []"
| "find_from name i (b # bs) =
     (case selects name b of
        Inl e \<Rightarrow> Inl e
      | Inr keep \<Rightarrow>
          (case find_from name (Suc i) bs of
             Inl e \<Rightarrow> Inl e
           | Inr r \<Rightarrow> Inr (if keep then i # r else r)))"

definition find_assigment_in_ast :: "string \<Rightarrow> stmt list \<Rightarrow> error + nat list" where
  "find_assigment_in_ast name ast_file = find_from name 0 ast_file"

section \<open>The metadata normalizer\<close>

text \<open>
  \<^verbatim>\<open>bodypart[0].value = meta\<close> replaces the value of the referenced node. On a
  \<^verbatim>\<open>Delete\<close> node the attribute set this way is no field of the node, so the tree is
  the same.
\<close>

definition set_value :: "stmt list \<Rightarrow> nat \<Rightarrow> expr \<Rightarrow> stmt list" where
  "set_value body i v =
     (if i < length body
      then body[i := (case body ! i of Assign ts old \<Rightarrow> Assign ts v | s \<Rightarrow> s)]
      else body)"

definition meta :: expr where
  "meta = Dict [Constant (PStr ''metadata_version''), Constant (PStr ''supported_by'')]
               [Constant (PStr ''1.1''), Constant (PStr ''Ansible'')]"

definition update_metdata :: "pystate \<Rightarrow> nat list \<Rightarrow> error + pystate" where
  "update_metdata st bodypart =
     (if length bodypart \<noteq> 1
      then Inr (warning ''Failed to find ANSIBLE_METADATA assignment'' st)
      else Inr (st\<lparr>tree := set_value (tree st) (bodypart ! 0) meta\<rparr>))"

section \<open>Python strings\<close>

text \<open>
  A character is a code point below 256. \<^verbatim>\<open>str.lower\<close> and \<^verbatim>\<open>str.upper\<close> act on the
  letters A-Z and a-z and leave every other character alone.
\<close>

definition lower_char :: "char \<Rightarrow> char" where
  "lower_char c =
     (case map_of (zip ''ABCDEFGHIJKLMNOPQRSTUVWXYZ'' ''abcdefghijklmnopqrstuvwxyz'') c of
        Some d \<Rightarrow> d
      | None \<Rightarrow> c)"

definition upper_char :: "char \<Rightarrow> char" where
  "upper_char c =
     (case map_of (zip ''abcdefghijklmnopqrstuvwxyz'' ''ABCDEFGHIJKLMNOPQRSTUVWXYZ'') c of
        Some d \<Rightarrow> d
      | None \<Rightarrow> c)"

definition lower :: "string \<Rightarrow> string" where
  "lower s = map lower_char s"

definition upper :: "string \<Rightarrow> string" where
  "upper s = map upper_char s"

definition startswith :: "string \<Rightarrow> string \<Rightarrow> bool" where
  "startswith s p = (take (length p) s = p)"

text \<open>\<^verbatim>\<open>sub in s\<close> on strings: \<open>sub\<close> occurs in \<open>s\<close> as a contiguous piece.\<close>

fun contains :: "string \<Rightarrow> string \<Rightarrow> bool" where
  "contains [] sub = (sub = [])"
| "contains (c # cs) sub = (startswith (c # cs) sub \<or> contains cs sub)"

text \<open>\<^verbatim>\<open>s.split(sep)\<close> for a one-character separator; the result is never empty.\<close>

fun split_on :: "char \<Rightarrow> string \<Rightarrow> string list" where
  "split_on sep [] = [[]]"
| "split_on sep (c # cs) =
     (if c = sep then [] # split_on sep cs
      else (case split_on sep cs of [] \<Rightarrow> [[c]] | p # ps \<Rightarrow> (c # p) # ps))"

text \<open>
  \<^verbatim>\<open>s.replace(old, new)\<close>: the occurrences of \<open>old\<close> are replaced from the left, without
  overlap. For an empty \<open>old\<close> Python puts \<open>new\<close> before every character and at the end.
\<close>

function replace :: "string \<Rightarrow> string \<Rightarrow> string \<Rightarrow> string" where
  "replace old new s =
     (if old = [] then new @ concat (map (\<lambda>c. c # new) s)
      else if s = [] then []
      else if startswith s old then new @ replace old new (drop (length old) s)
      else hd s # replace old new (tl s))"
  by pat_completeness auto
termination
  by (relation "measure (\<lambda>(old, new, s). length s)") auto

declare replace.simps [simp del]

text \<open>
  \<^verbatim>\<open>s.splitlines()\<close>: the line boundaries among these characters are LF, CR, CR LF, VT,
  FF, FS, GS, RS and NEL (U+0085); a boundary at the very end opens no further line.
\<close>

definition LF :: char where
  "LF = CHR 0x0A"

definition CR :: char where
  "CR = CHR 0x0D"

definition is_linebreak :: "char \<Rightarrow> bool" where
  "is_linebreak c \<longleftrightarrow>
     c \<in> set [LF, CR, CHR 0x0B, CHR 0x0C, CHR 0x1C, CHR 0x1D, CHR 0x1E, CHR 0x85]"

fun lines_from :: "string \<Rightarrow> string \<Rightarrow> string list" where
  "lines_from acc [] = (if acc = [] then [] else [rev acc])"
| "lines_from acc [c] = (if is_linebreak c then [rev acc] else [rev (c # acc)])"
| "lines_from acc (c # d # cs) =
     (if c = CR \<and> d = LF then rev acc # lines_from [] cs
      else if is_linebreak c then rev acc # lines_from [] (d # cs)
      else lines_from (c # acc) (d # cs))"

definition splitlines :: "string \<Rightarrow> string list" where
  "splitlines s = lines_from [] s"

text \<open>\<^verbatim>\<open>"\n".join(ls)\<close>\<close>

fun join_lines :: "string list \<Rightarrow> string" where
  "join_lines [] = []"
| "join_lines [l] = l"
| "join_lines (l # m # ls) = l @ LF # join_lines (m # ls)"

text \<open>
  The pattern \<^verbatim>\<open>^\s+version_added\:\s.*$\<close> under \<^verbatim>\<open>re.match\<close>. \<^verbatim>\<open>\s\<close> is any whitespace
  character (TAB, LF, VT, FF, CR, FS, GS, RS, US, the space, NEL (U+0085) and the
  no-break space (U+00A0)); \<^verbatim>\<open>.\<close> is any character but LF; \<^verbatim>\<open>$\<close> is the end of the string or the place before a final
  LF. As the key starts with a letter, \<^verbatim>\<open>\s+\<close> can only take the whole run of leading
  whitespace.
\<close>

definition is_space :: "char \<Rightarrow> bool" where
  "is_space c \<longleftrightarrow>
     c \<in> set [CHR '' '', CHR 0x09, LF, CHR 0x0B, CHR 0x0C, CR, CHR 0x1C, CHR 0x1D, CHR 0x1E, CHR 0x1F,
              CHR 0x85, CHR 0xA0]"

definition dot_star_end :: "string \<Rightarrow> bool" where
  "dot_star_end s \<longleftrightarrow> LF \<notin> set s \<or> (s \<noteq> [] \<and> last s = LF \<and> LF \<notin> set (butlast s))"

definition version_added_line :: "string \<Rightarrow> bool" where
  "version_added_line l \<longleftrightarrow>
     (let indent = takeWhile is_space l; rest = dropWhile is_space l in
      indent \<noteq> [] \<and> startswith rest ''version_added:'' \<and>
      (case drop (length ''version_added:'') rest of
         [] \<Rightarrow> False
       | w # tail \<Rightarrow> is_space w \<and> dot_star_end tail))"

section \<open>Structured documents\<close>

text \<open>
  What \<^verbatim>\<open>ruamel.yaml\<close> decodes: scalars, sequences, and mappings that keep the order of
  their keys. A mapping is the list of its entries in key order; Python's mapping has
  every key once. Documents are modelled by this structural content. A float is a
  real number, an infinity with its sign (\<open>True\<close> for the negative one), or NaN.

  The codec itself is no code of this repository: \<open>load\<close> (the round-trip decoder,
  which fails on text it cannot parse) and \<open>dump\<close> (the round-trip encoder) are
  parameters of every function that calls them.
\<close>

datatype pyfloat = NaN | Infinite bool | Finite real

datatype yaml =
    YNull
  | YBool bool
  | YInt int
  | YFloat pyfloat
  | YStr string
  | YSeq "yaml list"
  | YMap "(yaml \<times> yaml) list"

type_synonym loader = "string \<Rightarrow> error + yaml"
type_synonym dumper = "yaml \<Rightarrow> string"

text \<open>\<^verbatim>\<open>doc[key]\<close> for a string key: only a mapping can be indexed by a string.\<close>

fun getitem :: "yaml \<Rightarrow> string \<Rightarrow> error + yaml" where
  "getitem (YMap kvs) k = (case map_of kvs (YStr k) of None \<Rightarrow> Inl KeyError | Some v \<Rightarrow> Inr v)"
| "getitem d k = Inl TypeError"

text \<open>
  \<^verbatim>\<open>m[key] = value\<close> on an ordered mapping: a key that is present keeps its place and
  gets the value, a new key goes to the end.
\<close>

fun setitem :: "(yaml \<times> yaml) list \<Rightarrow> yaml \<Rightarrow> yaml \<Rightarrow> (yaml \<times> yaml) list" where
  "setitem [] k v = [(k, v)]"
| "setitem ((k', v') # kvs) k v =
     (if k' = k then (k', v) # kvs else (k', v') # setitem kvs k v)"

text \<open>\<^verbatim>\<open>CommentedMap(pairs)\<close>: the mapping built by storing the pairs one after another.\<close>

definition CommentedMap :: "(yaml \<times> yaml) list \<Rightarrow> (yaml \<times> yaml) list" where
  "CommentedMap pairs = foldl (\<lambda>m kv. setitem m (fst kv) (snd kv)) [] pairs"

text \<open>\<^verbatim>\<open>m.pop(key, None)\<close>\<close>

definition pop_key :: "string \<Rightarrow> (yaml \<times> yaml) list \<Rightarrow> (yaml \<times> yaml) list" where
  "pop_key k kvs = filter (\<lambda>kv. fst kv \<noteq> YStr k) kvs"

text \<open>\<^verbatim>\<open>m.insert(pos, key, value)\<close> of \<^verbatim>\<open>CommentedMap\<close>, for a key that is not in \<open>m\<close>.\<close>

definition insert_at :: "nat \<Rightarrow> yaml \<Rightarrow> yaml \<Rightarrow> (yaml \<times> yaml) list \<Rightarrow> (yaml \<times> yaml) list" where
  "insert_at pos k v kvs = take pos kvs @ (k, v) # drop pos kvs"

text \<open>Python's truth value of a decoded document.\<close>

fun truthy :: "yaml \<Rightarrow> bool" where
  "truthy YNull = False"
| "truthy (YBool b) = b"
| "truthy (YInt n) = (n \<noteq> 0)"
| "truthy (YFloat NaN) = True"
| "truthy (YFloat (Infinite negative)) = True"
| "truthy (YFloat (Finite x)) = (x \<noteq> 0)"
| "truthy (YStr s) = (s \<noteq> [])"
| "truthy (YSeq xs) = (xs \<noteq> [])"
| "truthy (YMap kvs) = (kvs \<noteq> [])"

section \<open>Reading and writing the string literal of an assignment\<close>

text \<open>
  \<^verbatim>\<open>bodypart[0].value.value\<close> is text for an assignment of a string literal. For every
  other node the attribute is missing or is no text, and decoding raises; the model
  does not tell these errors apart.
\<close>

definition node_text :: "stmt list \<Rightarrow> nat \<Rightarrow> error + string" where
  "node_text body i =
     (if i < length body
      then (case body ! i of
              Assign ts (Constant (PStr s)) \<Rightarrow> Inr s
            | b \<Rightarrow> Inl AttributeError)
      else Inl IndexError)"

text \<open>\<^verbatim>\<open>bodypart[0].value.value = text\<close>, reached only after \<open>node_text\<close> succeeded.\<close>

definition set_text :: "stmt list \<Rightarrow> nat \<Rightarrow> string \<Rightarrow> stmt list" where
  "set_text body i s =
     (if i < length body
      then body[i := (case body ! i of
                        Assign ts (Constant c) \<Rightarrow> Assign ts (Constant (PStr s))
                      | b \<Rightarrow> b)]
      else body)"

section \<open>Module name\<close>

definition retrieve_module_name ::
  "loader \<Rightarrow> pystate \<Rightarrow> nat list \<Rightarrow> error + (pystate \<times> yaml option)" where
  "retrieve_module_name load st bodypart =
     (if length bodypart \<noteq> 1
      then Inr (warning ''Failed to find DOCUMENTATION assignment'' st, None)
      else
        ebind (node_text (tree st) (bodypart ! 0)) (\<lambda>text.
        ebind (load text) (\<lambda>documentation.
        ebind (getitem documentation ''module'') (\<lambda>name.
        Inr (st, Some name)))))"

section \<open>The documentation field editor\<close>

definition desc_idx :: "(yaml \<times> yaml) list \<Rightarrow> nat list" where
  "desc_idx kvs = filter (\<lambda>idx. fst (kvs ! idx) = YStr ''description'') [0..<length kvs]"

text \<open>
  \<^verbatim>\<open>documentation.pop("version_added", None)\<close> needs a mapping: a list takes no second
  argument to \<^verbatim>\<open>pop\<close>, and the other documents have no such method.
\<close>

definition edit_documentation :: "yaml \<Rightarrow> error + yaml" where
  "edit_documentation documentation =
     (case documentation of
        YMap kvs \<Rightarrow>
          (let popped = pop_key ''version_added'' kvs;
               idxs = desc_idx popped
           in if idxs = [] then Inl IndexError
              else Inr (YMap (insert_at (hd idxs + 1) (YStr ''version_added'') (YStr ''1.0.0'') popped)))
      | YSeq xs \<Rightarrow> Inl TypeError
      | d \<Rightarrow> Inl AttributeError)"

definition update_documentation :: "loader \<Rightarrow> dumper \<Rightarrow> pystate \<Rightarrow> nat list \<Rightarrow> error + pystate" where
  "update_documentation load dump st bodypart =
     (if length bodypart \<noteq> 1
      then Inr (warning ''Failed to find DOCUMENTATION assignment'' st)
      else
        ebind (node_text (tree st) (bodypart ! 0)) (\<lambda>text.
        ebind (load text) (\<lambda>documentation.
        ebind (edit_documentation documentation) (\<lambda>documentation.
        let repl = dump documentation;
            example_lines = filter (\<lambda>l. \<not> version_added_line l) (splitlines repl)
        in Inr (st\<lparr>tree := set_text (tree st) (bodypart ! 0) (join_lines example_lines)\<rparr>)))))"

section \<open>The example reference rewriter\<close>

definition rename_key :: "string \<Rightarrow> string \<Rightarrow> yaml \<times> yaml \<Rightarrow> yaml \<times> yaml" where
  "rename_key module_name full_module_name kv =
     (if fst kv = YStr module_name then (YStr full_module_name, snd kv) else kv)"

fun qualify_task :: "string \<Rightarrow> string \<Rightarrow> yaml \<Rightarrow> error + yaml" where
  "qualify_task module_name full_module_name (YMap kvs) =
     Inr (YMap (CommentedMap (map (rename_key module_name full_module_name) kvs)))"
| "qualify_task module_name full_module_name task = Inl AttributeError"

fun qualify_tasks :: "string \<Rightarrow> string \<Rightarrow> yaml list \<Rightarrow> error + yaml list" where
  "qualify_tasks module_name full_module_name [] = Inr []"
| "qualify_tasks module_name full_module_name (task # tasks) =
     ebind (qualify_task module_name full_module_name task) (\<lambda>t.
     ebind (qualify_tasks module_name full_module_name tasks) (\<lambda>ts.
     Inr (t # ts)))"

text \<open>
  \<^verbatim>\<open>for idx, task in enumerate(example)\<close>: a sequence yields its tasks; a mapping yields
  its keys and a string its characters, none of which has \<^verbatim>\<open>items\<close>, so only the empty
  ones pass; the remaining documents cannot be iterated.
\<close>

fun qualify_example :: "string \<Rightarrow> string \<Rightarrow> yaml \<Rightarrow> error + yaml" where
  "qualify_example module_name full_module_name (YSeq tasks) =
     ebind (qualify_tasks module_name full_module_name tasks) (\<lambda>ts. Inr (YSeq ts))"
| "qualify_example module_name full_module_name (YMap kvs) =
     (if kvs = [] then Inr (YMap kvs) else Inl AttributeError)"
| "qualify_example module_name full_module_name (YStr s) =
     (if s = [] then Inr (YStr s) else Inl AttributeError)"
| "qualify_example module_name full_module_name d = Inl TypeError"

definition fix_comment :: "string \<Rightarrow> string \<Rightarrow> string \<Rightarrow> string" where
  "fix_comment module_name full_module_name line =
     (if startswith line ''#'' \<and> contains line module_name \<and> module_name \<noteq> []
         \<and> \<not> contains line full_module_name
      then replace module_name full_module_name line
      else line)"

definition update_examples ::
  "loader \<Rightarrow> dumper \<Rightarrow> pystate \<Rightarrow> nat list \<Rightarrow> string \<Rightarrow> string \<Rightarrow> error + pystate" where
  "update_examples load dump st bodypart module_name collection =
     (if length bodypart \<noteq> 1
      then Inr (warning ''Failed to find EXAMPLES assignment'' st)
      else
        let full_module_name = collection @ ''.'' @ module_name in
        ebind (node_text (tree st) (bodypart ! 0)) (\<lambda>text.
        ebind (load text) (\<lambda>example.
        ebind (qualify_example module_name full_module_name example) (\<lambda>example.
        let repl = dump example;
            example_lines = map (fix_comment module_name full_module_name) (splitlines repl)
        in Inr (st\<lparr>tree := set_text (tree st) (bodypart ! 0) (join_lines example_lines)\<rparr>)))))"

section \<open>The short-description deriver\<close>

definition SPECIALS :: "(string \<times> string) list" where
  "SPECIALS = [(''ospfv2'', ''OSPFv2''), (''interfaces'', ''Interfaces''), (''static'', ''Static'')]"

definition rm_rets :: "string list" where
  "rm_rets = [''after'', ''before'', ''commands'']"

text \<open>\<^verbatim>\<open>ret_section.keys()\<close> exists on a mapping only.\<close>

fun keys :: "yaml \<Rightarrow> error + yaml list" where
  "keys (YMap kvs) = Inr (map fst kvs)"
| "keys d = Inl AttributeError"

definition is_resource_module :: "yaml \<Rightarrow> error + bool" where
  "is_resource_module ret_section =
     ebind (keys ret_section) (\<lambda>ks.
     let match = filter (\<lambda>x. YStr x \<in> set ks) rm_rets
     in Inr (length match = length rm_rets))"

text \<open>
  Lines 197 to 200: \<^verbatim>\<open>if resource.lower()[-1].endswith("s")\<close> then the last character
  of \<open>resource\<close> is replaced by its lower-case form. Indexing the empty string raises.
\<close>

definition lower_final_s :: "string \<Rightarrow> error + string" where
  "lower_final_s resource =
     (if lower resource = [] then Inl IndexError
      else if last (lower resource) = CHR ''s''
      then Inr (butlast resource @ [lower_char (last resource)])
      else Inr resource)"

text \<open>Lines 190 to 203, the description of a resource module.\<close>

definition resource_description :: "string \<Rightarrow> error + string" where
  "resource_description module_name =
     (let parts = split_on (CHR ''_'') module_name in
      if length parts < 2 then Inl IndexError
      else
        let resource = lower (parts ! 1);
            resource = (case map_of SPECIALS resource of
                          Some special \<Rightarrow> special
                        | None \<Rightarrow> upper resource)
        in ebind (lower_final_s resource) (\<lambda>resource.
           let resource = (if length parts > 2 \<and> parts ! 2 \<noteq> ''global''
                           then resource @ '' '' @ parts ! 2
                           else resource)
           in Inr (resource @ '' resource module'')))"

text \<open>\<^verbatim>\<open>'deprecated' in doc_section\<close>; \<open>doc_section\<close> is a mapping where this is reached.\<close>

fun has_key :: "yaml \<Rightarrow> string \<Rightarrow> bool" where
  "has_key (YMap kvs) k = (YStr k \<in> set (map fst kvs))"
| "has_key d k = False"

text \<open>
  Lines 205 to 207. \<^verbatim>\<open>startswith\<close> is called only when the key is there, and exists
  on a string only. The result comes with the lines logged on the way.
\<close>

definition mark_deprecated :: "yaml \<Rightarrow> yaml \<Rightarrow> error + (logline list \<times> yaml)" where
  "mark_deprecated doc_section short_description =
     (if has_key doc_section ''deprecated''
      then (case short_description of
              YStr s \<Rightarrow>
                if startswith s ''(deprecated)'' then Inr ([], YStr s)
                else Inr ([(INFO, ''Found to be deprecated'')], YStr (''(deprecated) '' @ s))
            | d \<Rightarrow> Inl AttributeError)
      else Inr ([], short_description))"

text \<open>Lines 184 to 207: the final value of the variable \<^verbatim>\<open>short_description\<close>.\<close>

definition derive_short_description ::
  "string \<Rightarrow> yaml \<Rightarrow> yaml \<Rightarrow> error + (logline list \<times> yaml)" where
  "derive_short_description module_name ret_section doc_section =
     ebind (getitem doc_section ''short_description'') (\<lambda>short_description.
     ebind (is_resource_module ret_section) (\<lambda>rm.
     ebind (if rm
            then ebind (resource_description module_name) (\<lambda>s.
                 Inr ([(INFO, ''Found a resource module'')], YStr s))
            else Inr ([], short_description)) (\<lambda>(found, short_description).
     ebind (mark_deprecated doc_section short_description) (\<lambda>(deprecated, short_description).
     Inr (found @ deprecated, short_description)))))"

text \<open>\<^verbatim>\<open>doc_section["short_description"] = short_description\<close>\<close>

fun store :: "yaml \<Rightarrow> string \<Rightarrow> yaml \<Rightarrow> yaml" where
  "store (YMap kvs) k v = YMap (setitem kvs (YStr k) v)"
| "store d k v = d"

text \<open>
  Line 209, \<^verbatim>\<open>short_description != doc_section['short_description']\<close>. The left value is
  the object read at line 184 or a string made since then. Python finds a float NaN
  unequal to itself; inside a sequence or mapping it takes identical elements for
  equal, so a container never differs from itself; everything else is compared by
  content, and a string equals no document of another kind.
\<close>

definition differs :: "yaml \<Rightarrow> yaml \<Rightarrow> bool" where
  "differs short_description original \<longleftrightarrow>
     short_description = YFloat NaN \<or> short_description \<noteq> original"

text \<open>
  \<^verbatim>\<open>'%s' % short_description\<close> for the log; the description written back is a string or
  the float NaN.
\<close>

fun text_of :: "yaml \<Rightarrow> string" where
  "text_of (YStr s) = s"
| "text_of (YFloat NaN) = ''nan''"
| "text_of d = []"

definition update_short_description ::
  "loader \<Rightarrow> dumper \<Rightarrow> pystate \<Rightarrow> nat list \<Rightarrow> nat list \<Rightarrow> string \<Rightarrow> error + pystate" where
  "update_short_description load dump st retrn documentation module_name =
     (if length retrn \<noteq> 1
      then Inr (warning ''Failed to find RETURN assignment'' st)
      else
        ebind (node_text (tree st) (retrn ! 0)) (\<lambda>rtext.
        ebind (load rtext) (\<lambda>ret_section.
        if length documentation \<noteq> 1
        then Inr (warning ''Failed to find DOCUMENTATION assignment'' st)
        else
          ebind (node_text (tree st) (documentation ! 0)) (\<lambda>dtext.
          ebind (load dtext) (\<lambda>doc_section.
          ebind (derive_short_description module_name ret_section doc_section)
            (\<lambda>(logged, short_description).
          ebind (getitem doc_section ''short_description'') (\<lambda>original.
          let st = st\<lparr>log := log st @ logged\<rparr> in
          if differs short_description original
          then
            let st = info (''Setting short desciption to '' @ [CHR 0x27]
                           @ text_of short_description @ [CHR 0x27]) st;
                repl = dump (store doc_section ''short_description'' short_description)
            in Inr (st\<lparr>tree := set_text (tree st) (documentation ! 0) repl\<rparr>)
          else Inr st)))))))"

section \<open>Processing one file\<close>

text \<open>
  The body of the loop of \<^verbatim>\<open>process\<close> for one file whose tree has been loaded. What is
  written to the file is the tree of the resulting state; serialising it and the
  formatter run belong to other programs.
\<close>

datatype outcome = Skipped | Written

text \<open>\<^verbatim>\<open>if not module_name\<close>, for what \<^verbatim>\<open>retrieve_module_name\<close> returned.\<close>

fun is_truthy :: "yaml option \<Rightarrow> bool" where
  "is_truthy None = False"
| "is_truthy (Some v) = truthy v"

text \<open>
  The four transformer calls of the loop body, lines 250 to 281: each with the locator
  calls that make its arguments, in the order Python evaluates them, and the progress
  line logged after it.
\<close>

definition stage_metadata :: "string \<Rightarrow> pystate \<Rightarrow> error + pystate" where
  "stage_metadata filename st =
     ebind (find_assigment_in_ast ''ANSIBLE_METADATA'' (tree st)) (\<lambda>bodypart.
     ebind (update_metdata st bodypart) (\<lambda>st.
     Inr (info (''Updated metadata in '' @ filename) st)))"

definition stage_documentation :: "loader \<Rightarrow> dumper \<Rightarrow> string \<Rightarrow> pystate \<Rightarrow> error + pystate" where
  "stage_documentation load dump filename st =
     ebind (find_assigment_in_ast ''DOCUMENTATION'' (tree st)) (\<lambda>bodypart.
     ebind (update_documentation load dump st bodypart) (\<lambda>st.
     Inr (info (''Updated documentation in '' @ filename) st)))"

definition stage_short_description ::
  "loader \<Rightarrow> dumper \<Rightarrow> string \<Rightarrow> pystate \<Rightarrow> error + pystate" where
  "stage_short_description load dump module_name st =
     ebind (find_assigment_in_ast ''RETURN'' (tree st)) (\<lambda>retrn.
     ebind (find_assigment_in_ast ''DOCUMENTATION'' (tree st)) (\<lambda>documentation.
     update_short_description load dump st retrn documentation module_name))"

definition stage_examples ::
  "loader \<Rightarrow> dumper \<Rightarrow> string \<Rightarrow> string \<Rightarrow> string \<Rightarrow> pystate \<Rightarrow> error + pystate" where
  "stage_examples load dump module_name collection filename st =
     ebind (find_assigment_in_ast ''EXAMPLES'' (tree st)) (\<lambda>bodypart.
     ebind (update_examples load dump st bodypart module_name collection) (\<lambda>st.
     Inr (info (''Updated examples in '' @ filename) st)))"

definition process_file ::
  "loader \<Rightarrow> dumper \<Rightarrow> string \<Rightarrow> string \<Rightarrow> pystate \<Rightarrow> error + (outcome \<times> pystate)" where
  "process_file load dump collection filename st0 =
     (let st = info (''-------------------Processing '' @ filename) st0 in
      ebind (find_assigment_in_ast ''DOCUMENTATION'' (tree st)) (\<lambda>bodypart.
      ebind (retrieve_module_name load st bodypart) (\<lambda>(st, module_name).
      if \<not> is_truthy module_name
      then Inr (Skipped, warning (''Skipped '' @ filename @ '': No module name found'') st)
      else
        (case module_name of
           Some (YStr module_name) \<Rightarrow>
             ebind (stage_metadata filename st) (\<lambda>st.
             ebind (stage_documentation load dump filename st) (\<lambda>st.
             ebind (stage_short_description load dump module_name st) (\<lambda>st.
             ebind (stage_examples load dump module_name collection filename st) (\<lambda>st.
             Inr (Written,
                  info (''Running black against '' @ filename)
                    (info (''Wrote '' @ filename) st))))))
         | other \<Rightarrow> Inl Unsupported))))"

section \<open>Properties of the locator\<close>

lemma selects_ok_iff:
  "(\<exists>k. selects name b = Inr k) \<longleftrightarrow>
     (\<forall>ts. targets_of b = Some ts \<longrightarrow> (\<exists>x rest. ts = Name x # rest))"
proof (cases "targets_of b")
  case None
  then show ?thesis by (auto simp: selects_def)
next
  case (Some ts)
  then show ?thesis
    by (cases ts rule: first_id.cases) (auto simp: selects_def)
qed

lemma find_from_ok_iff:
  "(\<exists>r. find_from name i bs = Inr r) \<longleftrightarrow> (\<forall>b \<in> set bs. \<exists>k. selects name b = Inr k)"
proof (induction bs arbitrary: i)
  case Nil
  then show ?case by simp
next
  case (Cons b bs)
  show ?case
  proof (cases "selects name b")
    case (Inl e)
    then show ?thesis by simp
  next
    case (Inr k)
    have "(\<exists>r. find_from name i (b # bs) = Inr r) \<longleftrightarrow>
          (\<exists>r. find_from name (Suc i) bs = Inr r)"
      using Inr by (cases "find_from name (Suc i) bs") auto
    with Inr Cons.IH [of "Suc i"] show ?thesis by auto
  qed
qed

lemma find_from_sound:
  "find_from name i bs = Inr r \<Longrightarrow> j \<in> set r \<Longrightarrow>
     i \<le> j \<and> j < i + length bs \<and> selects name (bs ! (j - i)) = Inr True"
proof (induction bs arbitrary: i r)
  case Nil
  then show ?case by simp
next
  case (Cons b bs)
  from Cons.prems(1) obtain keep r' where
    k: "selects name b = Inr keep" and
    r': "find_from name (Suc i) bs = Inr r'" and
    r: "r = (if keep then i # r' else r')"
    by (auto split: sum.splits)
  show ?case
  proof (cases "j = i")
    case True
    with Cons.prems(2) r k Cons.IH [OF r'] show ?thesis
      by (cases keep) auto
  next
    case False
    with Cons.prems(2) r have "j \<in> set r'" by (auto split: if_splits)
    from Cons.IH [OF r' this] have "Suc i \<le> j" "j < Suc i + length bs"
      "selects name (bs ! (j - Suc i)) = Inr True" by auto
    moreover from \<open>Suc i \<le> j\<close> have "j - i = Suc (j - Suc i)" by simp
    ultimately show ?thesis by simp
  qed
qed

lemma selects_True:
  "selects name b = Inr True \<Longrightarrow> \<exists>ts rest. targets_of b = Some (Name name # rest)"
  by (cases "targets_of b"; cases "the (targets_of b)" rule: first_id.cases)
     (auto simp: selects_def)

text \<open>
  C10. The locator returns a list exactly when every top-level statement that carries
  \<^verbatim>\<open>targets\<close> has a plain identifier as its first target, whatever name is searched
  for: a tuple, attribute or other non-identifier first target makes it raise.
\<close>

theorem find_assigment_in_ast_partial:
  "(\<exists>r. find_assigment_in_ast name ast_file = Inr r) \<longleftrightarrow>
     (\<forall>b \<in> set ast_file. \<forall>ts. targets_of b = Some ts \<longrightarrow> (\<exists>x rest. ts = Name x # rest))"
  unfolding find_assigment_in_ast_def find_from_ok_iff
  by (simp add: selects_ok_iff)

theorem find_assigment_in_ast_partial_witness:
  "(\<nexists>r. find_assigment_in_ast ''DOCUMENTATION''
          [Assign [Tuple [Name ''a'', Name ''b'']] (Constant PNone),
           Assign [Name ''DOCUMENTATION''] (Constant (PStr ''module: x''))] = Inr r)
   \<and> (\<exists>r. find_assigment_in_ast ''DOCUMENTATION''
          [OtherStmt, Assign [Name ''DOCUMENTATION''] (Constant (PStr ''module: x''))] = Inr r)"
  using find_assigment_in_ast_partial
          [of "''DOCUMENTATION''" "[Assign [Tuple [Name ''a'', Name ''b'']] (Constant PNone),
           Assign [Name ''DOCUMENTATION''] (Constant (PStr ''module: x''))]"]
        find_assigment_in_ast_partial
          [of "''DOCUMENTATION''"
              "[OtherStmt, Assign [Name ''DOCUMENTATION''] (Constant (PStr ''module: x''))]"]
  by simp

lemma find_assigment_in_ast_sound:
  assumes "find_assigment_in_ast name body = Inr r" and "j \<in> set r"
  shows "j < length body" and "\<exists>rest. targets_of (body ! j) = Some (Name name # rest)"
  using find_from_sound [of name 0 body r j] assms selects_True [of name "body ! j"]
  by (auto simp: find_assigment_in_ast_def)

section \<open>Properties of the metadata normalizer\<close>

text \<open>
  C9. When the locator finds exactly one \<^verbatim>\<open>ANSIBLE_METADATA\<close> assignment, the normalizer
  returns the state in which that assignment has the fixed two-entry mapping as its
  value, whatever the value was before; nothing else in the state differs.
\<close>

theorem update_metdata_overwrites:
  assumes "find_assigment_in_ast ''ANSIBLE_METADATA'' (tree st) = Inr [i]"
    and "tree st ! i = Assign ts old"
  shows "update_metdata st [i] =
           Inr (st\<lparr>tree := (tree st)
             [i := Assign ts
                (Dict [Constant (PStr ''metadata_version''), Constant (PStr ''supported_by'')]
                      [Constant (PStr ''1.1''), Constant (PStr ''Ansible'')])]\<rparr>)"
proof -
  have "i < length (tree st)"
    using find_assigment_in_ast_sound(1) [OF assms(1)] by simp
  with assms(2) show ?thesis
    by (simp add: update_metdata_def set_value_def meta_def)
qed

theorem update_metdata_overwrites_witness:
  "find_assigment_in_ast ''ANSIBLE_METADATA''
     [OtherStmt, Assign [Name ''ANSIBLE_METADATA''] (Constant (PInt 7))] = Inr [1]
   \<and> update_metdata
       \<lparr>tree = [OtherStmt, Assign [Name ''ANSIBLE_METADATA''] (Constant (PInt 7))], log = []\<rparr> [1] =
     Inr \<lparr>tree = [OtherStmt, Assign [Name ''ANSIBLE_METADATA'']
                (Dict [Constant (PStr ''metadata_version''), Constant (PStr ''supported_by'')]
                      [Constant (PStr ''1.1''), Constant (PStr ''Ansible'')])], log = []\<rparr>"
proof -
  let ?st = "\<lparr>tree = [OtherStmt, Assign [Name ''ANSIBLE_METADATA''] (Constant (PInt 7))],
              log = []\<rparr>"
  have f: "find_assigment_in_ast ''ANSIBLE_METADATA'' (tree ?st) = Inr [1]"
    by (simp add: find_assigment_in_ast_def selects_def)
  have a: "tree ?st ! 1 = Assign [Name ''ANSIBLE_METADATA''] (Constant (PInt 7))"
    by simp
  show ?thesis
    using f update_metdata_overwrites [OF f a] by simp
qed

section \<open>Properties of the short-description deriver\<close>

lemma ebind_simps [simp]:
  "ebind (Inl e) f = Inl e"
  "ebind (Inr v) f = f v"
  by (simp_all add: ebind_def)

lemma ebind_eq_Inr:
  "ebind r f = Inr y \<longleftrightarrow> (\<exists>v. r = Inr v \<and> f v = Inr y)"
  by (cases r) simp_all

lemma map_of_setitem_same: "map_of (setitem kvs k v) k = Some v"
  by (induction kvs) auto

lemma map_of_setitem_other: "k' \<noteq> k \<Longrightarrow> map_of (setitem kvs k v) k' = map_of kvs k'"
  by (induction kvs) auto

lemma keys_setitem:
  "map fst (setitem kvs k v) = (if k \<in> set (map fst kvs) then map fst kvs else map fst kvs @ [k])"
proof (induction kvs)
  case Nil
  show ?case by simp
next
  case (Cons p kvs)
  obtain k' v' where p: "p = (k', v')" by (cases p)
  show ?case
  proof (cases "k' = k")
    case True
    with p show ?thesis by simp
  next
    case False
    with p Cons.IH show ?thesis by simp
  qed
qed

lemma getitem_Inr: "getitem d k = Inr v \<Longrightarrow> \<exists>kvs. d = YMap kvs \<and> map_of kvs (YStr k) = Some v"
  by (cases d) (auto split: option.splits)

lemma mark_deprecated_again:
  assumes "mark_deprecated d x = Inr (l, r)"
    and "has_key d' ''deprecated'' = has_key d ''deprecated''"
  shows "mark_deprecated d' r = Inr ([], r)"
  using assms
  by (cases x) (auto simp: mark_deprecated_def startswith_def split: if_splits)

lemma mark_deprecated_cong:
  "has_key d' ''deprecated'' = has_key d ''deprecated'' \<Longrightarrow>
     mark_deprecated d' x = mark_deprecated d x"
  by (simp add: mark_deprecated_def)

lemma derive_short_description_Inr:
  assumes "derive_short_description module_name ret_section doc_section = Inr (logged, r)"
  shows "\<exists>original rm found sd deprecated.
    getitem doc_section ''short_description'' = Inr original \<and>
    is_resource_module ret_section = Inr rm \<and>
    (if rm then \<exists>s. resource_description module_name = Inr s \<and> sd = YStr s
                   \<and> found = [(INFO, ''Found a resource module'')]
     else sd = original \<and> found = []) \<and>
    mark_deprecated doc_section sd = Inr (deprecated, r) \<and>
    logged = found @ deprecated"
proof -
  from assms obtain original where
    g: "getitem doc_section ''short_description'' = Inr original"
    unfolding derive_short_description_def
    by (cases "getitem doc_section ''short_description''") simp_all
  from assms g obtain rm where
    rm: "is_resource_module ret_section = Inr rm"
    unfolding derive_short_description_def
    by (cases "is_resource_module ret_section") simp_all
  let ?step = "if rm then ebind (resource_description module_name) (\<lambda>s.
                 Inr ([(INFO, ''Found a resource module'')], YStr s))
               else Inr ([], original)"
  from assms g rm obtain p where p: "?step = Inr p"
    unfolding derive_short_description_def
    by (cases ?step) simp_all
  obtain found sd where fs: "p = (found, sd)" by (cases p)
  from assms g rm p fs obtain q where q: "mark_deprecated doc_section sd = Inr q"
    unfolding derive_short_description_def
    by (cases "mark_deprecated doc_section sd") simp_all
  obtain deprecated r' where dr: "q = (deprecated, r')" by (cases q)
  from assms g rm p fs q dr have e: "logged = found @ deprecated" "r' = r"
    unfolding derive_short_description_def by simp_all
  have t: "if rm then \<exists>s. resource_description module_name = Inr s \<and> sd = YStr s
                   \<and> found = [(INFO, ''Found a resource module'')]
           else sd = original \<and> found = []"
    using p fs by (cases rm; cases "resource_description module_name") simp_all
  from g rm t q dr e show ?thesis by blast
qed

lemma derive_short_description_again:
  assumes "derive_short_description module_name ret_section doc_section = Inr (logged, r)"
  shows "\<exists>logged'. derive_short_description module_name ret_section
                      (store doc_section ''short_description'' r) = Inr (logged', r)"
proof -
  from derive_short_description_Inr [OF assms] obtain original rm found sd deprecated where
    g: "getitem doc_section ''short_description'' = Inr original" and
    rm: "is_resource_module ret_section = Inr rm" and
    t: "if rm then \<exists>s. resource_description module_name = Inr s \<and> sd = YStr s
                   \<and> found = [(INFO, ''Found a resource module'')]
        else sd = original \<and> found = []" and
    m: "mark_deprecated doc_section sd = Inr (deprecated, r)"
    by blast
  from g obtain kvs where d: "doc_section = YMap kvs"
    using getitem_Inr by blast
  let ?d' = "store doc_section ''short_description'' r"
  have g': "getitem ?d' ''short_description'' = Inr r"
    by (simp add: d map_of_setitem_same)
  have h: "has_key ?d' ''deprecated'' = has_key doc_section ''deprecated''"
    by (simp add: d keys_setitem)
  show ?thesis
  proof (cases rm)
    case True
    with t obtain s where s: "resource_description module_name = Inr s" "sd = YStr s"
      by auto
    have "mark_deprecated ?d' sd = Inr (deprecated, r)"
      using m mark_deprecated_cong [OF h] by simp
    with True rm g' s show ?thesis
      by (simp add: derive_short_description_def)
  next
    case False
    with t have "sd = original" by simp
    with m h have "mark_deprecated ?d' r = Inr ([], r)"
      using mark_deprecated_again by blast
    with False rm g' show ?thesis
      by (simp add: derive_short_description_def)
  qed
qed

lemma resource_description_ios_interfaces:
  "resource_description ''ios_interfaces'' = Inr ''Interfaces resource module''"
  by code_simp

lemma is_resource_module_iff:
  "keys ret_section = Inr ks \<Longrightarrow>
     is_resource_module ret_section =
       Inr (YStr ''after'' \<in> set ks \<and> YStr ''before'' \<in> set ks \<and> YStr ''commands'' \<in> set ks)"
  by (simp add: is_resource_module_def rm_rets_def)

text \<open>
  C1, as the code has it. For \<^verbatim>\<open>ios_interfaces\<close>, a RETURN document with the keys
  \<^verbatim>\<open>after\<close>, \<^verbatim>\<open>before\<close> and \<^verbatim>\<open>commands\<close> and a documentation document with a
  \<^verbatim>\<open>short_description\<close>, the final short description is
  \<^verbatim>\<open>Interfaces resource module\<close>: the table maps the token to \<^verbatim>\<open>Interfaces\<close>, whose
  last character is lower case already. With a \<^verbatim>\<open>deprecated\<close> key in the documentation
  the prefix \<^verbatim>\<open>(deprecated) \<close> comes in front.
\<close>

theorem short_description_ios_interfaces:
  assumes "keys ret_section = Inr ks"
    and "YStr ''after'' \<in> set ks" "YStr ''before'' \<in> set ks" "YStr ''commands'' \<in> set ks"
    and "getitem doc_section ''short_description'' = Inr original"
  shows "derive_short_description ''ios_interfaces'' ret_section doc_section =
           (if has_key doc_section ''deprecated''
            then Inr ([(INFO, ''Found a resource module''), (INFO, ''Found to be deprecated'')],
                      YStr ''(deprecated) Interfaces resource module'')
            else Inr ([(INFO, ''Found a resource module'')], YStr ''Interfaces resource module''))"
  using assms
  by (simp add: derive_short_description_def is_resource_module_iff
        resource_description_ios_interfaces mark_deprecated_def startswith_def)

theorem short_description_ios_interfaces_witness:
  "derive_short_description ''ios_interfaces''
     (YMap [(YStr ''commands'', YSeq []), (YStr ''before'', YNull), (YStr ''after'', YNull)])
     (YMap [(YStr ''module'', YStr ''ios_interfaces''), (YStr ''short_description'', YStr ''x''),
            (YStr ''deprecated'', YMap [])])
   = Inr ([(INFO, ''Found a resource module''), (INFO, ''Found to be deprecated'')],
          YStr ''(deprecated) Interfaces resource module'')"
  using short_description_ios_interfaces
    [of "YMap [(YStr ''commands'', YSeq []), (YStr ''before'', YNull), (YStr ''after'', YNull)]"
        "[YStr ''commands'', YStr ''before'', YStr ''after'']"
        "YMap [(YStr ''module'', YStr ''ios_interfaces''), (YStr ''short_description'', YStr ''x''),
            (YStr ''deprecated'', YMap [])]" "YStr ''x''"]
  by simp

text \<open>
  The description the specification expects for this input,
  \<^verbatim>\<open>Interface resource module\<close>, is not what the deriver returns.
\<close>

theorem short_description_ios_interfaces_counterexample:
  "derive_short_description ''ios_interfaces''
     (YMap [(YStr ''after'', YNull), (YStr ''before'', YNull), (YStr ''commands'', YNull)])
     (YMap [(YStr ''short_description'', YStr ''Manages interfaces'')])
   = Inr ([(INFO, ''Found a resource module'')], YStr ''Interfaces resource module'')
   \<and> ''Interfaces resource module'' \<noteq> ''Interface resource module''"
  by (simp add: derive_short_description_def is_resource_module_def rm_rets_def
        resource_description_ios_interfaces mark_deprecated_def)

lemma lower_char_s: "lower_char c = CHR ''s'' \<longleftrightarrow> c = CHR ''s'' \<or> c = CHR ''S''"
  by (auto simp: lower_char_def split: if_splits)

text \<open>
  C2, as the code has it. The test of lines 197 to 200 is made on the lower-cased
  string: the step fires when the resource string ends in \<^verbatim>\<open>s\<close> or in \<^verbatim>\<open>S\<close>, and then
  the string ends in \<^verbatim>\<open>s\<close>. So a string ending in upper-case \<^verbatim>\<open>S\<close> is changed, a string
  ending in lower-case \<^verbatim>\<open>s\<close> comes out as it was, and every other non-empty string is
  left alone.
\<close>

theorem lower_final_s_cases:
  "lower_final_s resource =
     (if resource = [] then Inl IndexError
      else if last resource = CHR ''s'' \<or> last resource = CHR ''S''
      then Inr (butlast resource @ ''s'')
      else Inr resource)"
  by (auto simp: lower_final_s_def lower_def last_map lower_char_s)

theorem lower_final_s_cases_witness:
  "lower_final_s ''VLANS'' = Inr ''VLANs'' \<and> lower_final_s ''Interfaces'' = Inr ''Interfaces''
   \<and> lower_final_s ''OSPFv2'' = Inr ''OSPFv2''"
  using lower_final_s_cases [of "''VLANS''"] lower_final_s_cases [of "''Interfaces''"]
    lower_final_s_cases [of "''OSPFv2''"]
  by simp

text \<open>
  A resource string that does not end in a lower-case \<^verbatim>\<open>s\<close> and is changed by the step:
  the upper-cased token of \<^verbatim>\<open>ios_acls\<close>.
\<close>

theorem lower_final_s_counterexample:
  "lower_final_s ''ACLS'' = Inr ''ACLs'' \<and> last ''ACLS'' \<noteq> CHR ''s''
   \<and> resource_description ''ios_acls'' = Inr ''ACLs resource module''"
  by code_simp

text \<open>
  C5, as the code has it. The prefix \<^verbatim>\<open>(deprecated) \<close> is put in front of a short
  description exactly when the documentation has a \<^verbatim>\<open>deprecated\<close> key and the
  description does not start with \<^verbatim>\<open>(deprecated)\<close>, the test being made without the
  space. Deriving again from the documentation that holds the derived description
  gives the same description: the prefix is not doubled.
\<close>

theorem deprecated_prefix:
  "mark_deprecated doc_section (YStr s) =
     (if has_key doc_section ''deprecated'' \<and> \<not> startswith s ''(deprecated)''
      then Inr ([(INFO, ''Found to be deprecated'')], YStr (''(deprecated) '' @ s))
      else Inr ([], YStr s))
   \<and> (\<forall>logged r.
        derive_short_description module_name ret_section doc_section = Inr (logged, r) \<longrightarrow>
        (\<exists>logged'. derive_short_description module_name ret_section
                      (store doc_section ''short_description'' r) = Inr (logged', r)))"
proof -
  have "mark_deprecated doc_section (YStr s) =
     (if has_key doc_section ''deprecated'' \<and> \<not> startswith s ''(deprecated)''
      then Inr ([(INFO, ''Found to be deprecated'')], YStr (''(deprecated) '' @ s))
      else Inr ([], YStr s))"
    by (simp add: mark_deprecated_def)
  with derive_short_description_again
  show ?thesis by blast
qed

text \<open>
  A description that does not start with \<^verbatim>\<open>(deprecated) \<close>, in a documentation with
  the key, and gets no prefix.
\<close>

theorem deprecated_prefix_counterexample:
  "derive_short_description ''ios_ping'' (YMap [(YStr ''stdout'', YNull)])
     (YMap [(YStr ''short_description'', YStr ''(deprecated)Foo''), (YStr ''deprecated'', YNull)])
   = Inr ([], YStr ''(deprecated)Foo'')
   \<and> has_key (YMap [(YStr ''short_description'', YStr ''(deprecated)Foo''),
                    (YStr ''deprecated'', YNull)]) ''deprecated''
   \<and> \<not> startswith ''(deprecated)Foo'' ''(deprecated) ''"
  by (simp add: derive_short_description_def is_resource_module_def rm_rets_def
        mark_deprecated_def startswith_def)

theorem deprecated_prefix_witness:
  "derive_short_description ''ios_ping'' (YMap [(YStr ''stdout'', YNull)])
     (YMap [(YStr ''short_description'', YStr ''Foo module''), (YStr ''deprecated'', YNull)])
   = Inr ([(INFO, ''Found to be deprecated'')], YStr ''(deprecated) Foo module'')
   \<and> (\<exists>logged'. derive_short_description ''ios_ping'' (YMap [(YStr ''stdout'', YNull)])
        (store (YMap [(YStr ''short_description'', YStr ''Foo module''), (YStr ''deprecated'', YNull)])
           ''short_description'' (YStr ''(deprecated) Foo module''))
        = Inr (logged', YStr ''(deprecated) Foo module''))"
proof -
  let ?doc = "YMap [(YStr ''short_description'', YStr ''Foo module''), (YStr ''deprecated'', YNull)]"
  have a: "derive_short_description ''ios_ping'' (YMap [(YStr ''stdout'', YNull)]) ?doc
             = Inr ([(INFO, ''Found to be deprecated'')], YStr ''(deprecated) Foo module'')"
    using deprecated_prefix [of ?doc "''Foo module''"]
    by (simp add: derive_short_description_def is_resource_module_def rm_rets_def startswith_def)
  from a deprecated_prefix [of ?doc "''Foo module''" "''ios_ping''" "YMap [(YStr ''stdout'', YNull)]"]
  show ?thesis by blast
qed

section \<open>Properties of the documentation field editor\<close>









section \<open>Frame of the short-description deriver\<close>

lemma set_text_other: "j \<noteq> i \<Longrightarrow> set_text body i s ! j = body ! j"
  by (simp add: set_text_def)

lemma length_set_text: "length (set_text body i s) = length body"
  by (simp add: set_text_def)

lemma update_short_description_Inr:
  assumes "update_short_description load dump st retrn documentation module_name = Inr st'"
  shows "(length retrn \<noteq> 1 \<or> length documentation \<noteq> 1) \<and> tree st' = tree st \<or>
    (\<exists>r d rtext dtext ret_section doc_section logged derived original.
       retrn = [r] \<and> documentation = [d] \<and>
       node_text (tree st) r = Inr rtext \<and> load rtext = Inr ret_section \<and>
       node_text (tree st) d = Inr dtext \<and> load dtext = Inr doc_section \<and>
       derive_short_description module_name ret_section doc_section = Inr (logged, derived) \<and>
       getitem doc_section ''short_description'' = Inr original \<and>
       tree st' =
         (if derived = YFloat NaN \<or> derived \<noteq> original
          then set_text (tree st) d (dump (store doc_section ''short_description'' derived))
          else tree st))"
proof (cases "length retrn \<noteq> 1")
  case True
  with assms show ?thesis
    by (auto simp: update_short_description_def warning_def)
next
  case False
  then obtain r where r: "retrn = [r]"
    by (cases retrn) auto
  note a = assms [unfolded update_short_description_def r, simplified]
  from a obtain rtext where rt: "node_text (tree st) r = Inr rtext"
    by (cases "node_text (tree st) r") simp_all
  from a rt obtain ret_section where ld: "load rtext = Inr ret_section"
    by (cases "load rtext") simp_all
  show ?thesis
  proof (cases "length documentation \<noteq> 1")
    case True
    with a rt ld show ?thesis by (auto simp: warning_def)
  next
    case False
    then obtain d where d: "documentation = [d]"
      by (cases documentation) auto
    from a rt ld d obtain dtext where dt: "node_text (tree st) d = Inr dtext"
      by (cases "node_text (tree st) d") simp_all
    from a rt ld d dt obtain doc_section where dd: "load dtext = Inr doc_section"
      by (cases "load dtext") simp_all
    from a rt ld d dt dd obtain p where
      p: "derive_short_description module_name ret_section doc_section = Inr p"
      by (cases "derive_short_description module_name ret_section doc_section") simp_all
    obtain logged derived where ld2: "p = (logged, derived)" by (cases p)
    from a rt ld d dt dd p ld2 obtain original where
      g: "getitem doc_section ''short_description'' = Inr original"
      by (cases "getitem doc_section ''short_description''") simp_all
    have "tree st' =
         (if derived = YFloat NaN \<or> derived \<noteq> original
          then set_text (tree st) d (dump (store doc_section ''short_description'' derived))
          else tree st)"
    proof (cases "differs derived original")
      case True
      with a rt ld d dt dd p ld2 g have "tree st' =
          set_text (tree st) d (dump (store doc_section ''short_description'' derived))"
        by (auto simp: Let_def info_def)
      with True show ?thesis by (auto simp: differs_def)
    next
      case False
      with a rt ld d dt dd p ld2 g have "tree st' = tree st"
        by (auto simp: Let_def)
      with False show ?thesis by (auto simp: differs_def)
    qed
    with r d rt ld dt dd p ld2 g show ?thesis by blast
  qed
qed

text \<open>
  C8, as the code has it. When the deriver returns, every statement that is no located
  \<^verbatim>\<open>DOCUMENTATION\<close> assignment is as before, the \<^verbatim>\<open>RETURN\<close> assignments among them.
  With one assignment of each name, the text of the \<^verbatim>\<open>DOCUMENTATION\<close> assignment becomes
  the encoded document with the derived description stored exactly when the test of
  line 209 holds: when the derived description differs from the one in the document,
  or is the float NaN, which Python finds unequal to itself; otherwise the tree is as
  before. (The one assignment to the tree is the last statement of the function, so a
  run that raises has changed nothing.)
\<close>

theorem update_short_description_frame:
  assumes "find_assigment_in_ast ''RETURN'' (tree st) = Inr retrn"
    and "find_assigment_in_ast ''DOCUMENTATION'' (tree st) = Inr documentation"
    and "update_short_description load dump st retrn documentation module_name = Inr st'"
  shows "(\<forall>r \<in> set retrn. tree st' ! r = tree st ! r) \<and>
    (\<forall>j. j \<notin> set documentation \<longrightarrow> tree st' ! j = tree st ! j) \<and>
    length (tree st') = length (tree st) \<and>
    ((length retrn \<noteq> 1 \<or> length documentation \<noteq> 1) \<and> tree st' = tree st \<or>
     (\<exists>r d rtext dtext ret_section doc_section logged derived original.
       retrn = [r] \<and> documentation = [d] \<and>
       node_text (tree st) r = Inr rtext \<and> load rtext = Inr ret_section \<and>
       node_text (tree st) d = Inr dtext \<and> load dtext = Inr doc_section \<and>
       derive_short_description module_name ret_section doc_section = Inr (logged, derived) \<and>
       getitem doc_section ''short_description'' = Inr original \<and>
       tree st' =
         (if derived = YFloat NaN \<or> derived \<noteq> original
          then set_text (tree st) d (dump (store doc_section ''short_description'' derived))
          else tree st)))"
proof -
  note u = update_short_description_Inr [OF assms(3)]
  have disj: "set retrn \<inter> set documentation = {}"
  proof (rule ccontr)
    assume "set retrn \<inter> set documentation \<noteq> {}"
    then obtain j where "j \<in> set retrn" "j \<in> set documentation" by auto
    with find_assigment_in_ast_sound(2) [OF assms(1)] find_assigment_in_ast_sound(2) [OF assms(2)]
    show False by fastforce
  qed
  have other: "\<forall>j. j \<notin> set documentation \<longrightarrow> tree st' ! j = tree st ! j"
    using u by (auto simp: set_text_other)
  moreover have "\<forall>r \<in> set retrn. tree st' ! r = tree st ! r"
    using other disj by auto
  moreover have "length (tree st') = length (tree st)"
    using u by (auto simp: length_set_text)
  ultimately show ?thesis using u by blast
qed

theorem update_short_description_frame_witness:
  "find_assigment_in_ast ''RETURN''
      [Assign [Name ''RETURN''] (Constant (PStr ''r'')),
       Assign [Name ''DOCUMENTATION''] (Constant (PStr ''d''))] = Inr [0]
   \<and> find_assigment_in_ast ''DOCUMENTATION''
      [Assign [Name ''RETURN''] (Constant (PStr ''r'')),
       Assign [Name ''DOCUMENTATION''] (Constant (PStr ''d''))] = Inr [1]
   \<and> update_short_description
        (\<lambda>t. if t = ''r''
              then Inr (YMap [(YStr ''before'', YNull), (YStr ''after'', YNull),
                              (YStr ''commands'', YNull)])
              else Inr (YMap [(YStr ''short_description'', YStr ''old'')]))
        (\<lambda>d. ''new'')
        \<lparr>tree = [Assign [Name ''RETURN''] (Constant (PStr ''r'')),
                 Assign [Name ''DOCUMENTATION''] (Constant (PStr ''d''))], log = []\<rparr>
        [0] [1] ''ios_interfaces''
      = Inr \<lparr>tree = [Assign [Name ''RETURN''] (Constant (PStr ''r'')),
                      Assign [Name ''DOCUMENTATION''] (Constant (PStr ''new''))],
              log = [(INFO, ''Found a resource module''),
                     (INFO, ''Setting short desciption to '' @ [CHR 0x27]
                            @ ''Interfaces resource module'' @ [CHR 0x27])]\<rparr>
   \<and> tree \<lparr>tree = [Assign [Name ''RETURN''] (Constant (PStr ''r'')),
                      Assign [Name ''DOCUMENTATION''] (Constant (PStr ''new''))],
              log = [(INFO, ''Found a resource module''),
                     (INFO, ''Setting short desciption to '' @ [CHR 0x27]
                            @ ''Interfaces resource module'' @ [CHR 0x27])]\<rparr> ! 0
      = Assign [Name ''RETURN''] (Constant (PStr ''r''))"
proof -
  let ?load = "\<lambda>t. if t = ''r''
              then (Inr (YMap [(YStr ''before'', YNull), (YStr ''after'', YNull),
                              (YStr ''commands'', YNull)]) :: error + yaml)
              else Inr (YMap [(YStr ''short_description'', YStr ''old'')])"
  let ?dump = "\<lambda>d::yaml. ''new''"
  let ?st = "\<lparr>tree = [Assign [Name ''RETURN''] (Constant (PStr ''r'')),
                 Assign [Name ''DOCUMENTATION''] (Constant (PStr ''d''))], log = []\<rparr>"
  let ?st' = "\<lparr>tree = [Assign [Name ''RETURN''] (Constant (PStr ''r'')),
                      Assign [Name ''DOCUMENTATION''] (Constant (PStr ''new''))],
              log = [(INFO, ''Found a resource module''),
                     (INFO, ''Setting short desciption to '' @ [CHR 0x27]
                            @ ''Interfaces resource module'' @ [CHR 0x27])]\<rparr>"
  have r: "find_assigment_in_ast ''RETURN'' (tree ?st) = Inr [0]"
    by (simp add: find_assigment_in_ast_def selects_def)
  have d: "find_assigment_in_ast ''DOCUMENTATION'' (tree ?st) = Inr [1]"
    by (simp add: find_assigment_in_ast_def selects_def)
  have u: "update_short_description ?load ?dump ?st [0] [1] ''ios_interfaces'' = Inr ?st'"
    by code_simp
  from update_short_description_frame [OF r d u]
  have "tree ?st' ! 0 = tree ?st ! 0" by simp
  with r d u show ?thesis by simp
qed

text \<open>
  A documentation whose short description is the float NaN, for a module that is no
  resource module and is not deprecated: the derived description is the one of the
  document, and the text of the \<^verbatim>\<open>DOCUMENTATION\<close> assignment is replaced all the same.
\<close>

theorem update_short_description_frame_counterexample:
  "derive_short_description ''ios_ping'' (YMap [(YStr ''stdout'', YNull)])
     (YMap [(YStr ''short_description'', YFloat NaN)]) = Inr ([], YFloat NaN)
   \<and> getitem (YMap [(YStr ''short_description'', YFloat NaN)]) ''short_description''
       = Inr (YFloat NaN)
   \<and> update_short_description
        (\<lambda>t. if t = ''stdout:''
              then Inr (YMap [(YStr ''stdout'', YNull)])
              else Inr (YMap [(YStr ''short_description'', YFloat NaN)]))
        (\<lambda>d. ''short_description: .nan'' @ [LF])
        \<lparr>tree = [Assign [Name ''RETURN''] (Constant (PStr ''stdout:'')),
                 Assign [Name ''DOCUMENTATION''] (Constant (PStr ''short_description:   .nan''))],
         log = []\<rparr>
        [0] [1] ''ios_ping''
      = Inr \<lparr>tree = [Assign [Name ''RETURN''] (Constant (PStr ''stdout:'')),
                      Assign [Name ''DOCUMENTATION'']
                        (Constant (PStr (''short_description: .nan'' @ [LF])))],
              log = [(INFO, ''Setting short desciption to '' @ [CHR 0x27] @ ''nan''
                            @ [CHR 0x27])]\<rparr>"
  by code_simp


end
